theory Spec2Isabelle
  imports Main
begin

section \<open>Data model\<close>

text \<open>
  The export descriptor of a module, as \<open>getModuleExportsFromRequireDataInContext\<close>
  hands it to the visitor: \<open>moduleExports.hasDefaultExport\<close> and the set
  \<open>moduleExports.namedExports\<close>. An unknown descriptor (\<open>moduleExports == null\<close>) is
  \<open>None\<close> of the option type.
\<close>

record ModuleExports =
  hasDefaultExport :: bool
  namedExports :: "string set"

text \<open>
  The name of a variable declaration or of a binding element. Of a binding element the
  visitor reads \<open>propertyName\<close> and \<open>name\<close> only; a property name that is not an
  identifier (a string literal, a number, a computed key) is \<open>OtherPropertyName\<close>.
\<close>

datatype PropertyName = PropertyIdentifier string | OtherPropertyName

datatype BindingName =
    Identifier string
  | ObjectBindingPattern "BindingElement list"
  | ArrayBindingPattern
and BindingElement = BindingElement "PropertyName option" BindingName

text \<open>
  The wrapping access expression: \<open>require(...).name\<close>, or \<open>require(...)[argument]\<close>
  whose argument is \<open>Some text\<close> when it is a string literal and \<open>None\<close> otherwise.
\<close>

datatype AccessExpression =
    PropertyAccessExpression string
  | ElementAccessExpression "string option"

text \<open>
  What the visitor reads of one call expression: the result of \<open>isRequireCall\<close>, the
  module's exports, and the results of the four upward searches (\<open>findNodeUp\<close>).
\<close>

record CallSite =
  requireMatch :: bool
  moduleSpecifier :: "string option"
  moduleExports :: "ModuleExports option"
  expressionStatementParent :: bool
  elementOrPropertyAccessExpressionParent :: "AccessExpression option"
  variableDeclarationParent :: "BindingName option"
  callExpressionParent :: bool

text \<open>
  An import specifier \<open>createImportSpecifier(propertyName, name)\<close>, and the four shapes
  of import declaration the visitor creates for a module specifier.
\<close>

datatype ImportSpecifier = ImportSpecifier "string option" string

datatype ImportSpec =
    Bare
  | Default string
  | Namespace string
  | Named "ImportSpecifier list"

type_synonym ImportDeclaration = "string \<times> ImportSpec"

datatype ObjectLiteralElement =
    PropertyAssignment string string
  | ShorthandPropertyAssignment string

text \<open>
  The visit result: \<open>childContinuation(node)\<close>, \<open>undefined\<close> (the node is dropped),
  an identifier, an object literal, or \<open>node\<close> itself.
\<close>

datatype VisitResult =
    ChildContinuation
  | Remove
  | ReplaceWithIdentifier string
  | ReplaceWithObjectLiteral "ObjectLiteralElement list"
  | Unchanged

datatype error = TypeError

section \<open>The visitor context\<close>

text \<open>
  Modelled from the spec: the \<open>context\<close> object is declared outside the source file.
  Its state is the import registry of the spec's data model (one entry per module
  specifier), the import declarations added so far, the identifiers in use, and the two
  flags \<open>onlyExports\<close> and \<open>debug\<close> that the visitor reads.
\<close>

record RegistryEntry =
  bareImported :: bool
  defaultLocal :: "string option"
  namespaceLocal :: "string option"
  namedLocals :: "string \<rightharpoonup> string"

record VisitorContext =
  onlyExports :: bool
  debug :: bool
  registry :: "string \<Rightarrow> RegistryEntry"
  addedImports :: "ImportDeclaration list"
  usedIdentifiers :: "string list"

definition emptyEntry :: RegistryEntry where
  "emptyEntry = \<lparr>bareImported = False, defaultLocal = None, namespaceLocal = None,
                  namedLocals = Map.empty\<rparr>"

definition initialContext :: "bool \<Rightarrow> bool \<Rightarrow> string list \<Rightarrow> VisitorContext" where
  "initialContext oe dbg used =
     \<lparr>onlyExports = oe, debug = dbg, registry = (\<lambda>_. emptyEntry), addedImports = [],
      usedIdentifiers = used\<rparr>"

text \<open>
  Modelled from the spec: the methods of \<open>context\<close> (the import registry of section 4.2)
  are not part of the source file; the definitions of this section follow the spec's
  registry. \<open>addBare\<close>, \<open>addDefault\<close>, \<open>addNamespace\<close> and \<open>addNamed\<close> are idempotent
  inserts into the entry of one module specifier.
\<close>

definition addBare :: "RegistryEntry \<Rightarrow> RegistryEntry" where
  "addBare e = e\<lparr>bareImported := True\<rparr>"

definition addDefault :: "string \<Rightarrow> RegistryEntry \<Rightarrow> RegistryEntry" where
  "addDefault local e =
     (case defaultLocal e of None \<Rightarrow> e\<lparr>defaultLocal := Some local\<rparr> | Some _ \<Rightarrow> e)"

definition addNamespace :: "string \<Rightarrow> RegistryEntry \<Rightarrow> RegistryEntry" where
  "addNamespace local e =
     (case namespaceLocal e of None \<Rightarrow> e\<lparr>namespaceLocal := Some local\<rparr> | Some _ \<Rightarrow> e)"

definition addNamed :: "string \<Rightarrow> string \<Rightarrow> RegistryEntry \<Rightarrow> RegistryEntry" where
  "addNamed exportedName local e =
     (case namedLocals e exportedName of
        None \<Rightarrow> e\<lparr>namedLocals := (namedLocals e)(exportedName \<mapsto> local)\<rparr>
      | Some _ \<Rightarrow> e)"

fun addSpecifier :: "ImportSpecifier \<Rightarrow> RegistryEntry \<Rightarrow> RegistryEntry" where
  "addSpecifier (ImportSpecifier None n) e = addNamed n n e"
| "addSpecifier (ImportSpecifier (Some p) n) e = addNamed p n e"

fun recordImport :: "ImportSpec \<Rightarrow> RegistryEntry \<Rightarrow> RegistryEntry" where
  "recordImport Bare e = addBare e"
| "recordImport (Default local) e = addDefault local e"
| "recordImport (Namespace local) e = addNamespace local e"
| "recordImport (Named specifiers) e = fold addSpecifier specifiers e"

text \<open>
  Modelled from the spec: \<open>context.addImport\<close> is not part of the source file. It
  appends the declaration to the file's import plan and records it in the registry
  entry of its module specifier.
\<close>

definition addImport :: "ImportDeclaration \<Rightarrow> VisitorContext \<Rightarrow> VisitorContext" where
  "addImport d ctx =
     ctx\<lparr>addedImports := addedImports ctx @ [d],
         registry := (registry ctx)(fst d := recordImport (snd d) (registry ctx (fst d)))\<rparr>"

text \<open>
  Modelled from the spec: the queries of \<open>context\<close> are not part of the source file.
  Each reads the registry entry of the module specifier (\<open>isBareImported\<close>,
  \<open>hasDefault\<close>, \<open>hasNamespace\<close>, \<open>hasNamed\<close> of the spec), and \<open>isIdentifierFree\<close>
  tells whether a name is neither bound in the file nor reserved in this pass.
\<close>

definition isModuleSpecifierImportedWithoutLocals :: "VisitorContext \<Rightarrow> string \<Rightarrow> bool" where
  "isModuleSpecifierImportedWithoutLocals ctx m = bareImported (registry ctx m)"

definition getLocalForDefaultImportFromModule :: "VisitorContext \<Rightarrow> string \<Rightarrow> string option" where
  "getLocalForDefaultImportFromModule ctx m = defaultLocal (registry ctx m)"

definition hasLocalForDefaultImportFromModule :: "VisitorContext \<Rightarrow> string \<Rightarrow> bool" where
  "hasLocalForDefaultImportFromModule ctx m = (getLocalForDefaultImportFromModule ctx m \<noteq> None)"

definition getLocalForNamespaceImportFromModule :: "VisitorContext \<Rightarrow> string \<Rightarrow> string option" where
  "getLocalForNamespaceImportFromModule ctx m = namespaceLocal (registry ctx m)"

definition hasLocalForNamespaceImportFromModule :: "VisitorContext \<Rightarrow> string \<Rightarrow> bool" where
  "hasLocalForNamespaceImportFromModule ctx m =
     (getLocalForNamespaceImportFromModule ctx m \<noteq> None)"

definition getLocalForNamedImportPropertyNameFromModule ::
  "VisitorContext \<Rightarrow> string \<Rightarrow> string \<Rightarrow> string option" where
  "getLocalForNamedImportPropertyNameFromModule ctx p m = namedLocals (registry ctx m) p"

definition hasLocalForNamedImportPropertyNameFromModule ::
  "VisitorContext \<Rightarrow> string \<Rightarrow> string \<Rightarrow> bool" where
  "hasLocalForNamedImportPropertyNameFromModule ctx p m =
     (getLocalForNamedImportPropertyNameFromModule ctx p m \<noteq> None)"

definition isIdentifierFree :: "VisitorContext \<Rightarrow> string \<Rightarrow> bool" where
  "isIdentifierFree ctx n = (n \<notin> set (usedIdentifiers ctx))"

text \<open>
  Modelled from the spec: \<open>context.getFreeIdentifier\<close> is not part of the source file.
  The spec's \<open>fresh(seed)\<close> derives a free identifier from the seed by suffixing,
  reserves it and returns it. The candidates are the seed followed by 0, 1, 2, ...
  dollar signs; among \<open>length used + 1\<close> of them one is free.
\<close>

definition candidate :: "string \<Rightarrow> nat \<Rightarrow> string" where
  "candidate seed i = seed @ replicate i (CHR ''$'')"

definition freeCandidate :: "string list \<Rightarrow> string \<Rightarrow> string" where
  "freeCandidate used seed =
     (case find (\<lambda>c. c \<notin> set used) (map (candidate seed) [0..<Suc (length used)]) of
        Some c \<Rightarrow> c
      | None \<Rightarrow> candidate seed (Suc (length used)))"

definition getFreeIdentifier :: "VisitorContext \<Rightarrow> string \<Rightarrow> string \<times> VisitorContext" where
  "getFreeIdentifier ctx seed =
     (let n = freeCandidate (usedIdentifiers ctx) seed
      in (n, ctx\<lparr>usedIdentifiers := n # usedIdentifiers ctx\<rparr>))"

section \<open>visitCallExpression\<close>

text \<open>
  Lines 91 to 100: the module gets a name through its default import, whatever its
  exports are. The first argument stands for \<open>generateNameFromModuleSpecifier\<close>, which
  is not part of the source file.
\<close>

definition importDefault ::
  "(string \<Rightarrow> string) \<Rightarrow> VisitorContext \<Rightarrow> string \<Rightarrow> string \<times> VisitorContext" where
  "importDefault gen ctx m =
     (if hasLocalForDefaultImportFromModule ctx m
      then (the (getLocalForDefaultImportFromModule ctx m), ctx)
      else (let (identifier, ctx1) = getFreeIdentifier ctx (gen m)
            in (identifier, addImport (m, Default identifier) ctx1)))"

text \<open>
  The chain the source repeats at lines 138 to 161, 239 to 268, 327 to 356 and 386 to
  415: reuse the default local of a module with a default export, reuse the namespace
  local of a module without one, and otherwise import the default or the namespace
  under a generated name.
\<close>

definition importDefaultOrNamespace ::
  "(string \<Rightarrow> string) \<Rightarrow> VisitorContext \<Rightarrow> string \<Rightarrow> ModuleExports \<Rightarrow> string \<times> VisitorContext" where
  "importDefaultOrNamespace gen ctx m ex =
     (if hasDefaultExport ex \<and> hasLocalForDefaultImportFromModule ctx m
      then (the (getLocalForDefaultImportFromModule ctx m), ctx)
      else if \<not> hasDefaultExport ex \<and> hasLocalForNamespaceImportFromModule ctx m
      then (the (getLocalForNamespaceImportFromModule ctx m), ctx)
      else (let (identifier, ctx1) = getFreeIdentifier ctx (gen m)
            in (identifier,
                addImport (m, if hasDefaultExport ex then Default identifier
                              else Namespace identifier) ctx1)))"

text \<open>Lines 77 to 101: the branch for unknown exports or no named exports.\<close>

definition visitWithoutNamedExports ::
  "(string \<Rightarrow> string) \<Rightarrow> VisitorContext \<Rightarrow> string \<Rightarrow> bool \<Rightarrow> VisitResult \<times> VisitorContext" where
  "visitWithoutNamedExports gen ctx m inStatement =
     (if inStatement
      then (Remove,
            if \<not> isModuleSpecifierImportedWithoutLocals ctx m then addImport (m, Bare) ctx
            else ctx)
      else (let (local, ctx1) = importDefault gen ctx m
            in (ReplaceWithIdentifier local, ctx1)))"

text \<open>Lines 117 to 127: the statically known name of the access, if any.\<close>

fun rightValue :: "AccessExpression \<Rightarrow> string option" where
  "rightValue (PropertyAccessExpression n) = Some n"
| "rightValue (ElementAccessExpression argument) = argument"

definition objectLiteralFor :: "string \<Rightarrow> string \<Rightarrow> ObjectLiteralElement list" where
  "objectLiteralFor local rv =
     [if local \<noteq> rv then PropertyAssignment rv local else ShorthandPropertyAssignment local]"

text \<open>Lines 130 to 222: the call is the object of an access with a known name.\<close>

definition visitAccess ::
  "(string \<Rightarrow> string) \<Rightarrow> VisitorContext \<Rightarrow> string \<Rightarrow> ModuleExports \<Rightarrow> bool \<Rightarrow> string
     \<Rightarrow> VisitResult \<times> VisitorContext" where
  "visitAccess gen ctx m ex inStatement rv =
     (if rv \<notin> namedExports ex
      then (let (identifier, ctx1) = importDefaultOrNamespace gen ctx m ex
            in (ReplaceWithObjectLiteral (objectLiteralFor identifier rv), ctx1))
      else
        (let (importBindingName, ctx2) =
               (if hasLocalForNamedImportPropertyNameFromModule ctx rv m
                then (the (getLocalForNamedImportPropertyNameFromModule ctx rv m), ctx)
                else if \<not> hasDefaultExport ex \<and> hasLocalForNamespaceImportFromModule ctx m
                then (the (getLocalForNamespaceImportFromModule ctx m), ctx)
                else
                  (let (n, ctx1) = (if isIdentifierFree ctx rv then (rv, ctx)
                                    else getFreeIdentifier ctx rv)
                   in (n, addImport
                            (m, Named [if rv = n then ImportSpecifier None rv
                                       else ImportSpecifier (Some rv) n]) ctx1)))
         in if \<not> inStatement
            then (ReplaceWithObjectLiteral (objectLiteralFor importBindingName rv), ctx2)
            else (Remove, ctx2)))"

text \<open>
  Lines 280 to 320: the body of the loop over the binding elements. The state of the
  loop is the list \<open>importSpecifiers\<close>, the list \<open>skippedImportSpecifiers\<close> and the
  context.
\<close>

fun visitBindingElement ::
  "string \<Rightarrow> ModuleExports
     \<Rightarrow> ImportSpecifier list \<times> ImportSpecifier list \<times> VisitorContext
     \<Rightarrow> BindingElement
     \<Rightarrow> ImportSpecifier list \<times> ImportSpecifier list \<times> VisitorContext" where
  "visitBindingElement m ex (importSpecifiers, skipped, ctx) (BindingElement None (Identifier n)) =
     (if n \<in> namedExports ex
      then (if hasLocalForNamedImportPropertyNameFromModule ctx n m
            then (let local = the (getLocalForNamedImportPropertyNameFromModule ctx n m)
                  in (importSpecifiers,
                      skipped @ [if local = n then ImportSpecifier None local
                                 else ImportSpecifier (Some n) local],
                      ctx))
            else if isIdentifierFree ctx n
            then (importSpecifiers @ [ImportSpecifier None n], skipped, ctx)
            else (let (alias, ctx1) = getFreeIdentifier ctx n
                  in (importSpecifiers @ [ImportSpecifier (Some n) alias], skipped, ctx1)))
      else (importSpecifiers, skipped, ctx))"
| "visitBindingElement m ex (importSpecifiers, skipped, ctx)
       (BindingElement (Some (PropertyIdentifier p)) _) =
     (if isIdentifierFree ctx p
      then (importSpecifiers @ [ImportSpecifier None p], skipped, ctx)
      else (let (alias, ctx1) = getFreeIdentifier ctx p
            in (importSpecifiers @ [ImportSpecifier (Some p) alias], skipped, ctx1)))"
| "visitBindingElement m ex (importSpecifiers, skipped, ctx) _ =
     (importSpecifiers, skipped, ctx)"

definition visitBindingElements ::
  "string \<Rightarrow> ModuleExports \<Rightarrow> VisitorContext \<Rightarrow> BindingElement list
     \<Rightarrow> ImportSpecifier list \<times> ImportSpecifier list \<times> VisitorContext" where
  "visitBindingElements m ex ctx elements =
     foldl (visitBindingElement m ex) ([], [], ctx) elements"

fun propertyFor :: "ImportSpecifier \<Rightarrow> ObjectLiteralElement" where
  "propertyFor (ImportSpecifier (Some p) n) = PropertyAssignment p n"
| "propertyFor (ImportSpecifier None n) = ShorthandPropertyAssignment n"

text \<open>Lines 276 to 373: the call initialises an object binding pattern.\<close>

definition visitObjectBindingPattern ::
  "(string \<Rightarrow> string) \<Rightarrow> VisitorContext \<Rightarrow> string \<Rightarrow> ModuleExports \<Rightarrow> BindingElement list
     \<Rightarrow> VisitResult \<times> VisitorContext" where
  "visitObjectBindingPattern gen ctx m ex elements =
     (let (importSpecifiers, skipped, ctx1) = visitBindingElements m ex ctx elements
      in if length importSpecifiers + length skipped \<noteq> length elements
         then (let (local, ctx2) = importDefaultOrNamespace gen ctx1 m ex
               in (ReplaceWithIdentifier local, ctx2))
         else (ReplaceWithObjectLiteral (map propertyFor (importSpecifiers @ skipped)),
               if length importSpecifiers > 0 then addImport (m, Named importSpecifiers) ctx1
               else ctx1))"

text \<open>Lines 225 to 422: the variable declaration, the wrapping call, and the end.\<close>

definition visitByDeclaration ::
  "(string \<Rightarrow> string) \<Rightarrow> VisitorContext \<Rightarrow> string \<Rightarrow> ModuleExports \<Rightarrow> CallSite
     \<Rightarrow> error + VisitResult \<times> VisitorContext" where
  "visitByDeclaration gen ctx m ex node =
     (case variableDeclarationParent node of
        Some (Identifier x) \<Rightarrow>
          (let (local, ctx1) = importDefaultOrNamespace gen ctx m ex
           in Inr (ReplaceWithIdentifier local, ctx1))
      | Some (ObjectBindingPattern elements) \<Rightarrow>
          Inr (visitObjectBindingPattern gen ctx m ex elements)
      | _ \<Rightarrow>
          (if callExpressionParent node
           then (let (local, ctx1) = importDefaultOrNamespace gen ctx m ex
                 in Inr (ReplaceWithIdentifier local, ctx1))
           else if debug ctx then Inl TypeError
           else Inr (Unchanged, ctx)))"

text \<open>Lines 43 to 423.\<close>

definition visitCallExpression ::
  "(string \<Rightarrow> string) \<Rightarrow> VisitorContext \<Rightarrow> CallSite \<Rightarrow> error + VisitResult \<times> VisitorContext" where
  "visitCallExpression gen ctx node =
     (if onlyExports ctx then Inr (ChildContinuation, ctx)
      else if \<not> requireMatch node then Inr (ChildContinuation, ctx)
      else
        (case moduleSpecifier node of
           None \<Rightarrow> Inr (Remove, ctx)
         | Some m \<Rightarrow>
             (if moduleExports node = None
                 \<or> namedExports (the (moduleExports node)) = {}
                 \<or> (expressionStatementParent node
                     \<and> \<not> hasDefaultExport (the (moduleExports node)))
              then Inr (visitWithoutNamedExports gen ctx m (expressionStatementParent node))
              else
                (let ex = the (moduleExports node)
                 in case Option.bind (elementOrPropertyAccessExpressionParent node) rightValue of
                      Some rv \<Rightarrow>
                        Inr (visitAccess gen ctx m ex (expressionStatementParent node) rv)
                    | None \<Rightarrow> visitByDeclaration gen ctx m ex node))))"

text \<open>
  One pass over a file: the call sites in the order they are visited, on one context.
  A thrown error ends the pass; the context is the one the failing visit started from.
\<close>

fun visitAll ::
  "(string \<Rightarrow> string) \<Rightarrow> VisitorContext \<Rightarrow> CallSite list
     \<Rightarrow> error option \<times> VisitResult list \<times> VisitorContext" where
  "visitAll gen ctx [] = (None, [], ctx)"
| "visitAll gen ctx (node # nodes) =
     (case visitCallExpression gen ctx node of
        Inl e \<Rightarrow> (Some e, [], ctx)
      | Inr (r, ctx1) \<Rightarrow>
          (case visitAll gen ctx1 nodes of (e, rs, ctx2) \<Rightarrow> (e, r # rs, ctx2)))"

section \<open>Auxiliary definitions for the statements\<close>

text \<open>
  A call site that is a require call with no enclosing node of interest, the visible
  part of a visit's result (the replacement and the import plan), and the reservation
  of a generated identifier.
\<close>

definition requireSite :: "string option \<Rightarrow> ModuleExports option \<Rightarrow> CallSite" where
  "requireSite m ex =
     \<lparr>requireMatch = True, moduleSpecifier = m, moduleExports = ex,
      expressionStatementParent = False, elementOrPropertyAccessExpressionParent = None,
      variableDeclarationParent = None, callExpressionParent = False\<rparr>"

definition outcome ::
  "error + VisitResult \<times> VisitorContext \<Rightarrow> error + VisitResult \<times> ImportDeclaration list" where
  "outcome r = (case r of Inl e \<Rightarrow> Inl e | Inr (a, ctx) \<Rightarrow> Inr (a, addedImports ctx))"

definition reserve :: "string \<Rightarrow> VisitorContext \<Rightarrow> VisitorContext" where
  "reserve n ctx = ctx\<lparr>usedIdentifiers := n # usedIdentifiers ctx\<rparr>"

text \<open>
  Whether a binding element adds an import specifier to one of the two lists of the
  loop (lines 282, 285 and 311): a plain element does when its name is a named export,
  an element with an identifier as property name always does, any other never does.
\<close>

fun contributes :: "ModuleExports \<Rightarrow> BindingElement \<Rightarrow> bool" where
  "contributes ex (BindingElement None (Identifier n)) = (n \<in> namedExports ex)"
| "contributes ex (BindingElement (Some (PropertyIdentifier p)) _) = True"
| "contributes ex _ = False"

text \<open>
  The call sites at which the source runs the chain of \<open>importDefaultOrNamespace\<close>:
  an access whose name is not a named export, a declaration of a plain name, an object
  binding pattern with an element that contributes no specifier, and a wrapping call.
  \<open>afterElements\<close> is the context the chain starts from: the one the loop over the
  binding elements leaves for a pattern, the given one otherwise. \<open>replacementFor\<close> is
  the node that replaces the call.
\<close>

definition resolvesWholeModule :: "ModuleExports \<Rightarrow> CallSite \<Rightarrow> bool" where
  "resolvesWholeModule ex node =
     (case Option.bind (elementOrPropertyAccessExpressionParent node) rightValue of
        Some rv \<Rightarrow> rv \<notin> namedExports ex
      | None \<Rightarrow>
          (case variableDeclarationParent node of
             Some (Identifier x) \<Rightarrow> True
           | Some (ObjectBindingPattern elements) \<Rightarrow> \<not> list_all (contributes ex) elements
           | _ \<Rightarrow> callExpressionParent node))"

definition afterElements ::
  "string \<Rightarrow> ModuleExports \<Rightarrow> VisitorContext \<Rightarrow> CallSite \<Rightarrow> VisitorContext" where
  "afterElements m ex ctx node =
     (case Option.bind (elementOrPropertyAccessExpressionParent node) rightValue of
        Some rv \<Rightarrow> ctx
      | None \<Rightarrow>
          (case variableDeclarationParent node of
             Some (ObjectBindingPattern elements) \<Rightarrow>
               snd (snd (visitBindingElements m ex ctx elements))
           | _ \<Rightarrow> ctx))"

definition replacementFor :: "AccessExpression option \<Rightarrow> string \<Rightarrow> VisitResult" where
  "replacementFor access local =
     (case Option.bind access rightValue of
        Some rv \<Rightarrow> ReplaceWithObjectLiteral (objectLiteralFor local rv)
      | None \<Rightarrow> ReplaceWithIdentifier local)"

text \<open>
  The default-binding and the namespace-binding imports that a plan holds for one module
  specifier, and the invariant that ties the plan to the registry: a specifier has at
  most one import of each kind in the plan, and the registry knows the local of each.
\<close>

fun isDefault :: "ImportSpec \<Rightarrow> bool" where
  "isDefault (Default local) = True"
| "isDefault _ = False"

fun isNamespace :: "ImportSpec \<Rightarrow> bool" where
  "isNamespace (Namespace local) = True"
| "isNamespace _ = False"

definition defaultImportsOf :: "string \<Rightarrow> ImportDeclaration list \<Rightarrow> ImportDeclaration list" where
  "defaultImportsOf m ds = filter (\<lambda>d. fst d = m \<and> isDefault (snd d)) ds"

definition namespaceImportsOf :: "string \<Rightarrow> ImportDeclaration list \<Rightarrow> ImportDeclaration list" where
  "namespaceImportsOf m ds = filter (\<lambda>d. fst d = m \<and> isNamespace (snd d)) ds"

definition consistent :: "VisitorContext \<Rightarrow> bool" where
  "consistent ctx \<longleftrightarrow>
     (\<forall>m. length (defaultImportsOf m (addedImports ctx)) \<le> 1
        \<and> (defaultImportsOf m (addedImports ctx) \<noteq> [] \<longrightarrow> defaultLocal (registry ctx m) \<noteq> None)
        \<and> length (namespaceImportsOf m (addedImports ctx)) \<le> 1
        \<and> (namespaceImportsOf m (addedImports ctx) \<noteq> []
             \<longrightarrow> namespaceLocal (registry ctx m) \<noteq> None))"


text \<open>
  The name under which an import specifier imports (its property name if it has one,
  its name otherwise), the specifiers of a named import, the exported names of the
  named imports that were added to the plan between two contexts, and the binding
  elements of the renaming form for a given property name.
\<close>

fun exportedName :: "ImportSpecifier \<Rightarrow> string" where
  "exportedName (ImportSpecifier None n) = n"
| "exportedName (ImportSpecifier (Some p) n) = p"




section \<open>Lemmas about the context\<close>

lemmas registry_defs =
  isModuleSpecifierImportedWithoutLocals_def
  getLocalForDefaultImportFromModule_def hasLocalForDefaultImportFromModule_def
  getLocalForNamespaceImportFromModule_def hasLocalForNamespaceImportFromModule_def
  getLocalForNamedImportPropertyNameFromModule_def
  hasLocalForNamedImportPropertyNameFromModule_def
  isIdentifierFree_def

lemmas entry_defs = emptyEntry_def addBare_def addDefault_def addNamespace_def addNamed_def

lemma getFreeIdentifier_eq:
  "getFreeIdentifier ctx seed =
     (freeCandidate (usedIdentifiers ctx) seed,
      reserve (freeCandidate (usedIdentifiers ctx) seed) ctx)"
  by (simp add: getFreeIdentifier_def reserve_def Let_def)

lemma reserve_fields [simp]:
  "registry (reserve n ctx) = registry ctx"
  "addedImports (reserve n ctx) = addedImports ctx"
  "onlyExports (reserve n ctx) = onlyExports ctx"
  "debug (reserve n ctx) = debug ctx"
  "usedIdentifiers (reserve n ctx) = n # usedIdentifiers ctx"
  by (simp_all add: reserve_def)

lemma addImport_fields [simp]:
  "addedImports (addImport d ctx) = addedImports ctx @ [d]"
  "onlyExports (addImport d ctx) = onlyExports ctx"
  "debug (addImport d ctx) = debug ctx"
  "usedIdentifiers (addImport d ctx) = usedIdentifiers ctx"
  "registry (addImport d ctx) =
     (registry ctx)(fst d := recordImport (snd d) (registry ctx (fst d)))"
  by (simp_all add: addImport_def)

lemma initialContext_fields [simp]:
  "onlyExports (initialContext oe dbg used) = oe"
  "debug (initialContext oe dbg used) = dbg"
  "registry (initialContext oe dbg used) m = emptyEntry"
  "addedImports (initialContext oe dbg used) = []"
  "usedIdentifiers (initialContext oe dbg used) = used"
  by (simp_all add: initialContext_def)

lemma emptyEntry_fields [simp]:
  "bareImported emptyEntry = False"
  "defaultLocal emptyEntry = None"
  "namespaceLocal emptyEntry = None"
  "namedLocals emptyEntry k = None"
  by (simp_all add: emptyEntry_def)

lemma freeCandidate_free_seed: "seed \<notin> set used \<Longrightarrow> freeCandidate used seed = seed"
  by (simp add: freeCandidate_def candidate_def upt_rec [of 0])

lemma freeCandidate_Nil [simp]: "freeCandidate [] seed = seed"
  by (simp add: freeCandidate_free_seed)

lemma importDefault_eq:
  "importDefault gen ctx m =
     (case defaultLocal (registry ctx m) of
        Some local \<Rightarrow> (local, ctx)
      | None \<Rightarrow>
          (freeCandidate (usedIdentifiers ctx) (gen m),
           addImport (m, Default (freeCandidate (usedIdentifiers ctx) (gen m)))
             (reserve (freeCandidate (usedIdentifiers ctx) (gen m)) ctx)))"
  by (simp add: importDefault_def registry_defs getFreeIdentifier_eq split: option.splits)

lemma importDefaultOrNamespace_eq:
  "importDefaultOrNamespace gen ctx m ex =
     (case (if hasDefaultExport ex then defaultLocal (registry ctx m)
            else namespaceLocal (registry ctx m)) of
        Some local \<Rightarrow> (local, ctx)
      | None \<Rightarrow>
          (freeCandidate (usedIdentifiers ctx) (gen m),
           addImport (m, if hasDefaultExport ex
                         then Default (freeCandidate (usedIdentifiers ctx) (gen m))
                         else Namespace (freeCandidate (usedIdentifiers ctx) (gen m)))
             (reserve (freeCandidate (usedIdentifiers ctx) (gen m)) ctx)))"
  by (simp add: importDefaultOrNamespace_def registry_defs getFreeIdentifier_eq
           split: option.splits)

section \<open>Claims\<close>

text \<open>
  C4, as stated: a require call whose module specifier could not be determined is left
  unmodified. The source returns \<open>undefined\<close> at line 61, so the call is removed;
  the statement below evaluates the visitor at such a call.
\<close>

theorem unresolved_specifier_kept_counterexample:
  "visitCallExpression id (initialContext False True []) (requireSite None None)
     = Inr (Remove, initialContext False True [])"
  by (simp add: visitCallExpression_def requireSite_def)

text \<open>
  C4, amended: for every require call whose module specifier could not be statically
  determined, the call node is removed, no import is added, the context is left as it
  was and no failure is surfaced.
\<close>

theorem unresolved_specifier_removed:
  assumes "\<not> onlyExports ctx" and "requireMatch node" and "moduleSpecifier node = None"
  shows "visitCallExpression gen ctx node = Inr (Remove, ctx)"
  using assms by (simp add: visitCallExpression_def)

theorem unresolved_specifier_removed_witness:
  "\<not> onlyExports (initialContext False False [''fs''])
   \<and> requireMatch ((requireSite None None)\<lparr>callExpressionParent := True\<rparr>)
   \<and> moduleSpecifier ((requireSite None None)\<lparr>callExpressionParent := True\<rparr>) = None
   \<and> visitCallExpression id (initialContext False False [''fs''])
        ((requireSite None None)\<lparr>callExpressionParent := True\<rparr>)
      = Inr (Remove, initialContext False False [''fs''])"
  using unresolved_specifier_removed
    [of "initialContext False False [''fs'']"
        "(requireSite None None)\<lparr>callExpressionParent := True\<rparr>" id]
  by (simp add: requireSite_def)

text \<open>
  C8, as stated: every call with an unresolved usage context fails in strict mode.
  With unknown exports the branch of line 75 is taken first and the call is replaced
  by an identifier for a default import.
\<close>

theorem unresolved_usage_strict_counterexample:
  "outcome (visitCallExpression id (initialContext False True []) (requireSite (Some ''m'') None))
     = Inr (ReplaceWithIdentifier ''m'', [(''m'', Default ''m'')])"
  by (simp add: visitCallExpression_def requireSite_def outcome_def visitWithoutNamedExports_def
        importDefault_eq)

text \<open>
  C8, amended: for every require call with no member access, variable declaration or
  wrapping call above it, whose module has known exports with at least one named export
  (and a default export if the call stands in an expression statement), strict mode
  throws a TypeError that ends the pass of the file, and lenient mode returns the node
  unchanged and adds no import.
\<close>

theorem unresolved_usage_with_named_exports:
  assumes "\<not> onlyExports ctx" and "requireMatch node"
    and "moduleSpecifier node = Some m" and "moduleExports node = Some ex"
    and "namedExports ex \<noteq> {}"
    and "expressionStatementParent node \<longrightarrow> hasDefaultExport ex"
    and "elementOrPropertyAccessExpressionParent node = None"
    and "variableDeclarationParent node = None"
    and "\<not> callExpressionParent node"
  shows "visitCallExpression gen ctx node = (if debug ctx then Inl TypeError else Inr (Unchanged, ctx))
       \<and> visitAll gen ctx (node # nodes) =
           (if debug ctx then (Some TypeError, [], ctx)
            else (case visitAll gen ctx nodes of (e, rs, ctx') \<Rightarrow> (e, Unchanged # rs, ctx')))"
proof -
  have "visitCallExpression gen ctx node =
          (if debug ctx then Inl TypeError else Inr (Unchanged, ctx))"
    using assms by (auto simp add: visitCallExpression_def visitByDeclaration_def)
  then show ?thesis by simp
qed

theorem unresolved_usage_with_named_exports_witness:
  "visitCallExpression id (initialContext False True [])
      (requireSite (Some ''m'') (Some \<lparr>hasDefaultExport = True, namedExports = {''a''}\<rparr>))
     = Inl TypeError
   \<and> visitAll id (initialContext False True [])
       [requireSite (Some ''m'') (Some \<lparr>hasDefaultExport = True, namedExports = {''a''}\<rparr>),
        requireSite (Some ''n'') None]
     = (Some TypeError, [], initialContext False True [])
   \<and> visitCallExpression id (initialContext False False [])
      (requireSite (Some ''m'') (Some \<lparr>hasDefaultExport = True, namedExports = {''a''}\<rparr>))
     = Inr (Unchanged, initialContext False False [])"
  using unresolved_usage_with_named_exports
    [of "initialContext False True []"
        "requireSite (Some ''m'') (Some \<lparr>hasDefaultExport = True, namedExports = {''a''}\<rparr>)"
        "''m''" "\<lparr>hasDefaultExport = True, namedExports = {''a''}\<rparr>" id
        "[requireSite (Some ''n'') None]"]
    unresolved_usage_with_named_exports
    [of "initialContext False False []"
        "requireSite (Some ''m'') (Some \<lparr>hasDefaultExport = True, namedExports = {''a''}\<rparr>)"
        "''m''" "\<lparr>hasDefaultExport = True, namedExports = {''a''}\<rparr>" id "[]"]
  by (simp add: requireSite_def)

section \<open>Lemmas about the loop over the binding elements\<close>

lemma visitBindingElement_context:
  assumes "visitBindingElement m ex (is, ss, ctx) e = (is', ss', ctx')"
  shows "registry ctx' = registry ctx \<and> addedImports ctx' = addedImports ctx
       \<and> onlyExports ctx' = onlyExports ctx \<and> debug ctx' = debug ctx"
  using assms
  by (cases "(m, ex, (is, ss, ctx), e)" rule: visitBindingElement.cases)
     (auto simp add: getFreeIdentifier_eq Let_def split: if_splits)

lemma visitBindingElement_length:
  assumes "visitBindingElement m ex (is, ss, ctx) e = (is', ss', ctx')"
  shows "length is' + length ss' = length is + length ss + (if contributes ex e then 1 else 0)"
  using assms
  by (cases "(m, ex, (is, ss, ctx), e)" rule: visitBindingElement.cases)
     (auto simp add: getFreeIdentifier_eq Let_def split: if_splits)

lemma foldl_visitBindingElement:
  assumes "foldl (visitBindingElement m ex) (is, ss, ctx) es = (is', ss', ctx')"
  shows "registry ctx' = registry ctx \<and> addedImports ctx' = addedImports ctx
       \<and> onlyExports ctx' = onlyExports ctx \<and> debug ctx' = debug ctx
       \<and> length is' + length ss' = length is + length ss + length (filter (contributes ex) es)"
  using assms
proof (induction es arbitrary: "is" ss ctx)
  case Nil
  then show ?case by simp
next
  case (Cons e es)
  obtain is1 ss1 ctx1 where step: "visitBindingElement m ex (is, ss, ctx) e = (is1, ss1, ctx1)"
    by (cases "visitBindingElement m ex (is, ss, ctx) e") auto
  with Cons.prems have rest: "foldl (visitBindingElement m ex) (is1, ss1, ctx1) es = (is', ss', ctx')"
    by simp
  from Cons.IH [OF rest] visitBindingElement_context [OF step] visitBindingElement_length [OF step]
  show ?case by simp
qed

lemma visitBindingElements_context:
  assumes "visitBindingElements m ex ctx es = (is', ss', ctx')"
  shows "registry ctx' = registry ctx" and "addedImports ctx' = addedImports ctx"
    and "onlyExports ctx' = onlyExports ctx" and "debug ctx' = debug ctx"
    and "length is' + length ss' = length (filter (contributes ex) es)"
  using foldl_visitBindingElement [of m ex "[]" "[]" ctx es is' ss' ctx'] assms
  by (simp_all add: visitBindingElements_def)

lemma filter_contributes_length:
  "length (filter (contributes ex) es) \<noteq> length es \<longleftrightarrow> \<not> list_all (contributes ex) es"
proof (induction es)
  case Nil
  then show ?case by simp
next
  case (Cons e es)
  have "length (filter (contributes ex) es) \<le> length es" by simp
  then have "length (filter (contributes ex) es) \<noteq> Suc (length es)" by arith
  with Cons show ?case by auto
qed

lemma visitBindingElements_snd [simp]:
  "registry (snd (snd (visitBindingElements m ex ctx es))) = registry ctx"
  "addedImports (snd (snd (visitBindingElements m ex ctx es))) = addedImports ctx"
  "onlyExports (snd (snd (visitBindingElements m ex ctx es))) = onlyExports ctx"
  "debug (snd (snd (visitBindingElements m ex ctx es))) = debug ctx"
  by (cases "visitBindingElements m ex ctx es"; simp add: visitBindingElements_context)+

lemma afterElements_context [simp]:
  "registry (afterElements m ex ctx node) = registry ctx"
  "addedImports (afterElements m ex ctx node) = addedImports ctx"
  "onlyExports (afterElements m ex ctx node) = onlyExports ctx"
  "debug (afterElements m ex ctx node) = debug ctx"
  by (simp_all add: afterElements_def split: option.splits BindingName.splits)

lemma visitObjectBindingPattern_fallback:
  assumes "\<not> list_all (contributes ex) es"
  shows "visitObjectBindingPattern gen ctx m ex es =
           (ReplaceWithIdentifier
              (fst (importDefaultOrNamespace gen (snd (snd (visitBindingElements m ex ctx es))) m ex)),
            snd (importDefaultOrNamespace gen (snd (snd (visitBindingElements m ex ctx es))) m ex))"
proof -
  obtain is' ss' ctx' where loop: "visitBindingElements m ex ctx es = (is', ss', ctx')"
    by (cases "visitBindingElements m ex ctx es") auto
  from visitBindingElements_context(5) [OF loop] assms
  have "length is' + length ss' \<noteq> length es"
    by (simp add: filter_contributes_length)
  with loop show ?thesis
    by (simp add: visitObjectBindingPattern_def split_def Let_def)
qed

lemma visit_resolvesWholeModule:
  assumes "\<not> onlyExports ctx" and "requireMatch node" and "moduleSpecifier node = Some m"
    and "moduleExports node = Some ex" and "namedExports ex \<noteq> {}"
    and "expressionStatementParent node \<longrightarrow> hasDefaultExport ex"
    and "resolvesWholeModule ex node"
  shows "visitCallExpression gen ctx node =
           Inr (replacementFor (elementOrPropertyAccessExpressionParent node)
                  (fst (importDefaultOrNamespace gen (afterElements m ex ctx node) m ex)),
                snd (importDefaultOrNamespace gen (afterElements m ex ctx node) m ex))"
  using assms
  by (auto simp add: visitCallExpression_def visitByDeclaration_def visitAccess_def
        resolvesWholeModule_def replacementFor_def afterElements_def split_def Let_def
        visitObjectBindingPattern_fallback
      split: option.splits BindingName.splits)

section \<open>Claims on whole-module imports\<close>

text \<open>
  C7, as stated: for \<open>const x = require("m")\<close> with a default export and no named
  exports the plan is a default import under the local \<open>x\<close>. The source never reads
  the declared name: the local is generated from the module specifier (line 95).
\<close>

theorem simple_binding_local_counterexample:
  "outcome (visitCallExpression id (initialContext False False [])
      ((requireSite (Some ''m'') (Some \<lparr>hasDefaultExport = True, namedExports = {}\<rparr>))
         \<lparr>variableDeclarationParent := Some (Identifier ''x'')\<rparr>))
     = Inr (ReplaceWithIdentifier ''m'', [(''m'', Default ''m'')])"
  by (simp add: visitCallExpression_def requireSite_def outcome_def visitWithoutNamedExports_def
        importDefault_eq)

text \<open>
  C7, amended: for a call site that initialises a plain variable \<open>x\<close>, outside an
  expression statement, with specifier \<open>m\<close>, a default export and no named exports, on
  a fresh context, the plan is exactly
  one default import whose local is the free identifier generated from the name that
  \<open>generateNameFromModuleSpecifier\<close> gives for \<open>m\<close>, and the call is replaced by that
  identifier; the local does not depend on \<open>x\<close>.
\<close>

theorem simple_binding_local_from_specifier:
  assumes "requireMatch node" and "moduleSpecifier node = Some m"
    and "moduleExports node = Some ex" and "hasDefaultExport ex" and "namedExports ex = {}"
    and "\<not> expressionStatementParent node"
    and "variableDeclarationParent node = Some (Identifier x)"
  shows "outcome (visitCallExpression gen (initialContext False dbg used) node)
       = Inr (ReplaceWithIdentifier (freeCandidate used (gen m)),
              [(m, Default (freeCandidate used (gen m)))])"
  using assms
  by (simp add: visitCallExpression_def outcome_def visitWithoutNamedExports_def importDefault_eq)

theorem simple_binding_local_from_specifier_witness:
  "outcome (visitCallExpression id (initialContext False True [''x''])
      ((requireSite (Some ''m'') (Some \<lparr>hasDefaultExport = True, namedExports = {}\<rparr>))
         \<lparr>variableDeclarationParent := Some (Identifier ''x'')\<rparr>))
     = Inr (ReplaceWithIdentifier ''m'', [(''m'', Default ''m'')])"
  using simple_binding_local_from_specifier
    [of "(requireSite (Some ''m'') (Some \<lparr>hasDefaultExport = True, namedExports = {}\<rparr>))
           \<lparr>variableDeclarationParent := Some (Identifier ''x'')\<rparr>"
        "''m''" "\<lparr>hasDefaultExport = True, namedExports = {}\<rparr>" "''x''" id True "[''x'']"]
  by (simp add: requireSite_def freeCandidate_free_seed)

text \<open>
  C2, as stated: a module known to have no default export never gets a default import.
  In the branch of line 75 (no named exports) the source imports the default all the
  same, as its comment says.
\<close>

theorem no_default_export_counterexample:
  "outcome (visitCallExpression id (initialContext False False [])
      ((requireSite (Some ''m'') (Some \<lparr>hasDefaultExport = False, namedExports = {}\<rparr>))
         \<lparr>callExpressionParent := True\<rparr>))
     = Inr (ReplaceWithIdentifier ''m'', [(''m'', Default ''m'')])"
  by (simp add: visitCallExpression_def requireSite_def outcome_def visitWithoutNamedExports_def
        importDefault_eq)

text \<open>
  C2, amended: for a call outside an expression statement whose module is known to have
  no default export, (1) if the module has named exports, every branch that resolves a
  whole-module binding (an access whose name is not a named export, a plain variable, an
  object binding pattern that falls back, a wrapping call) reuses the namespace local
  recorded for the specifier if there is one and otherwise adds exactly one Namespace
  import, never a Default one; (2) if the module has no named exports, the branch of
  line 75 reuses the recorded default local if there is one and otherwise adds a Default
  import.
\<close>

theorem namespace_for_no_default_export:
  assumes "\<not> onlyExports ctx" and "requireMatch node" and "moduleSpecifier node = Some m"
    and "moduleExports node = Some ex"
    and "\<not> expressionStatementParent node"
    and "\<not> hasDefaultExport ex"
  shows "(namedExports ex \<noteq> {} \<and> resolvesWholeModule ex node \<longrightarrow>
           visitCallExpression gen ctx node =
             (case namespaceLocal (registry ctx m) of
                Some local \<Rightarrow>
                  Inr (replacementFor (elementOrPropertyAccessExpressionParent node) local,
                       afterElements m ex ctx node)
              | None \<Rightarrow>
                  Inr (replacementFor (elementOrPropertyAccessExpressionParent node)
                         (freeCandidate (usedIdentifiers (afterElements m ex ctx node)) (gen m)),
                       addImport
                         (m, Namespace
                               (freeCandidate (usedIdentifiers (afterElements m ex ctx node)) (gen m)))
                         (reserve
                            (freeCandidate (usedIdentifiers (afterElements m ex ctx node)) (gen m))
                            (afterElements m ex ctx node)))))
       \<and> (namedExports ex = {} \<longrightarrow>
           visitCallExpression gen ctx node =
             (case defaultLocal (registry ctx m) of
                Some local \<Rightarrow> Inr (ReplaceWithIdentifier local, ctx)
              | None \<Rightarrow>
                  Inr (ReplaceWithIdentifier (freeCandidate (usedIdentifiers ctx) (gen m)),
                       addImport (m, Default (freeCandidate (usedIdentifiers ctx) (gen m)))
                         (reserve (freeCandidate (usedIdentifiers ctx) (gen m)) ctx))))"
proof (intro conjI impI)
  assume "namedExports ex \<noteq> {} \<and> resolvesWholeModule ex node"
  with assms show "visitCallExpression gen ctx node =
             (case namespaceLocal (registry ctx m) of
                Some local \<Rightarrow>
                  Inr (replacementFor (elementOrPropertyAccessExpressionParent node) local,
                       afterElements m ex ctx node)
              | None \<Rightarrow>
                  Inr (replacementFor (elementOrPropertyAccessExpressionParent node)
                         (freeCandidate (usedIdentifiers (afterElements m ex ctx node)) (gen m)),
                       addImport
                         (m, Namespace
                               (freeCandidate (usedIdentifiers (afterElements m ex ctx node)) (gen m)))
                         (reserve
                            (freeCandidate (usedIdentifiers (afterElements m ex ctx node)) (gen m))
                            (afterElements m ex ctx node))))"
    by (simp add: visit_resolvesWholeModule importDefaultOrNamespace_eq split: option.splits)
next
  assume "namedExports ex = {}"
  with assms show "visitCallExpression gen ctx node =
             (case defaultLocal (registry ctx m) of
                Some local \<Rightarrow> Inr (ReplaceWithIdentifier local, ctx)
              | None \<Rightarrow>
                  Inr (ReplaceWithIdentifier (freeCandidate (usedIdentifiers ctx) (gen m)),
                       addImport (m, Default (freeCandidate (usedIdentifiers ctx) (gen m)))
                         (reserve (freeCandidate (usedIdentifiers ctx) (gen m)) ctx)))"
    by (simp add: visitCallExpression_def visitWithoutNamedExports_def importDefault_eq
          split: option.splits)
qed

theorem namespace_for_no_default_export_witness:
  "outcome (visitCallExpression id (initialContext False False [])
      ((requireSite (Some ''m'') (Some \<lparr>hasDefaultExport = False, namedExports = {''a''}\<rparr>))
         \<lparr>variableDeclarationParent :=
            Some (ObjectBindingPattern [BindingElement None (Identifier ''b'')])\<rparr>))
     = Inr (ReplaceWithIdentifier ''m'', [(''m'', Namespace ''m'')])
   \<and> outcome (visitCallExpression id
        (addImport (''m'', Namespace ''ns'') (initialContext False False [''ns'']))
        ((requireSite (Some ''m'') (Some \<lparr>hasDefaultExport = False, namedExports = {''a''}\<rparr>))
           \<lparr>elementOrPropertyAccessExpressionParent := Some (PropertyAccessExpression ''b'')\<rparr>))
     = Inr (ReplaceWithObjectLiteral [PropertyAssignment ''b'' ''ns''], [(''m'', Namespace ''ns'')])
   \<and> outcome (visitCallExpression id (initialContext False False [])
        ((requireSite (Some ''m'') (Some \<lparr>hasDefaultExport = False, namedExports = {}\<rparr>))
           \<lparr>variableDeclarationParent := Some (Identifier ''x'')\<rparr>))
     = Inr (ReplaceWithIdentifier ''m'', [(''m'', Default ''m'')])"
  using namespace_for_no_default_export
    [of "initialContext False False []"
        "(requireSite (Some ''m'') (Some \<lparr>hasDefaultExport = False, namedExports = {}\<rparr>))
           \<lparr>variableDeclarationParent := Some (Identifier ''x'')\<rparr>"
        "''m''" "\<lparr>hasDefaultExport = False, namedExports = {}\<rparr>" id]
    namespace_for_no_default_export
    [of "initialContext False False []"
        "(requireSite (Some ''m'') (Some \<lparr>hasDefaultExport = False, namedExports = {''a''}\<rparr>))
           \<lparr>variableDeclarationParent :=
              Some (ObjectBindingPattern [BindingElement None (Identifier ''b'')])\<rparr>"
        "''m''" "\<lparr>hasDefaultExport = False, namedExports = {''a''}\<rparr>" id]
    namespace_for_no_default_export
    [of "addImport (''m'', Namespace ''ns'') (initialContext False False [''ns''])"
        "(requireSite (Some ''m'') (Some \<lparr>hasDefaultExport = False, namedExports = {''a''}\<rparr>))
           \<lparr>elementOrPropertyAccessExpressionParent := Some (PropertyAccessExpression ''b'')\<rparr>"
        "''m''" "\<lparr>hasDefaultExport = False, namedExports = {''a''}\<rparr>" id]
  by (simp add: requireSite_def resolvesWholeModule_def replacementFor_def afterElements_def
        visitBindingElements_def outcome_def objectLiteralFor_def entry_defs)

section \<open>The plan and the registry stay consistent\<close>

lemma fold_addSpecifier_locals:
  "defaultLocal (fold addSpecifier specifiers e) = defaultLocal e
   \<and> namespaceLocal (fold addSpecifier specifiers e) = namespaceLocal e
   \<and> bareImported (fold addSpecifier specifiers e) = bareImported e"
proof (induction specifiers arbitrary: e)
  case Nil
  then show ?case by simp
next
  case (Cons s specifiers)
  have "defaultLocal (addSpecifier s e) = defaultLocal e
      \<and> namespaceLocal (addSpecifier s e) = namespaceLocal e
      \<and> bareImported (addSpecifier s e) = bareImported e"
    by (cases "(s, e)" rule: addSpecifier.cases) (simp_all add: addNamed_def split: option.splits)
  with Cons.IH [of "addSpecifier s e"] show ?case by simp
qed

lemma recordImport_defaultLocal:
  "defaultLocal (recordImport s e) =
     (case s of Default local \<Rightarrow> (case defaultLocal e of None \<Rightarrow> Some local | Some l \<Rightarrow> Some l)
              | _ \<Rightarrow> defaultLocal e)"
  by (cases s) (simp_all add: entry_defs fold_addSpecifier_locals split: option.splits)

lemma recordImport_namespaceLocal:
  "namespaceLocal (recordImport s e) =
     (case s of Namespace local \<Rightarrow> (case namespaceLocal e of None \<Rightarrow> Some local | Some l \<Rightarrow> Some l)
              | _ \<Rightarrow> namespaceLocal e)"
  by (cases s) (simp_all add: entry_defs fold_addSpecifier_locals split: option.splits)

lemma consistent_initialContext: "consistent (initialContext oe dbg used)"
  by (simp add: consistent_def defaultImportsOf_def namespaceImportsOf_def)

lemma consistent_cong:
  assumes "registry ctx' = registry ctx" and "addedImports ctx' = addedImports ctx"
  shows "consistent ctx' = consistent ctx"
  using assms by (simp add: consistent_def)

lemma consistent_reserve [simp]: "consistent (reserve n ctx) = consistent ctx"
  by (rule consistent_cong) simp_all

lemma consistent_afterElements [simp]:
  "consistent (snd (snd (visitBindingElements m ex ctx es))) = consistent ctx"
  by (rule consistent_cong) simp_all

lemma consistent_addImport:
  assumes "consistent ctx"
    and "isDefault s \<longrightarrow> defaultLocal (registry ctx m) = None"
    and "isNamespace s \<longrightarrow> namespaceLocal (registry ctx m) = None"
  shows "consistent (addImport (m, s) ctx)"
  unfolding consistent_def
proof (intro allI)
  fix m'
  from assms(1) have old:
    "length (defaultImportsOf m' (addedImports ctx)) \<le> 1"
    "defaultImportsOf m' (addedImports ctx) \<noteq> [] \<longrightarrow> defaultLocal (registry ctx m') \<noteq> None"
    "length (namespaceImportsOf m' (addedImports ctx)) \<le> 1"
    "namespaceImportsOf m' (addedImports ctx) \<noteq> [] \<longrightarrow> namespaceLocal (registry ctx m') \<noteq> None"
    by (simp_all add: consistent_def)
  have d: "length (defaultImportsOf m' (addedImports (addImport (m, s) ctx))) \<le> 1
       \<and> (defaultImportsOf m' (addedImports (addImport (m, s) ctx)) \<noteq> [] \<longrightarrow>
            defaultLocal (registry (addImport (m, s) ctx) m') \<noteq> None)"
    using old(1,2) assms(2)
    by (cases s) (auto simp add: defaultImportsOf_def recordImport_defaultLocal
          simp del: recordImport.simps split: option.splits)
  have n: "length (namespaceImportsOf m' (addedImports (addImport (m, s) ctx))) \<le> 1
       \<and> (namespaceImportsOf m' (addedImports (addImport (m, s) ctx)) \<noteq> [] \<longrightarrow>
            namespaceLocal (registry (addImport (m, s) ctx) m') \<noteq> None)"
    using old(3,4) assms(3)
    by (cases s) (auto simp add: namespaceImportsOf_def recordImport_namespaceLocal
          simp del: recordImport.simps split: option.splits)
  from d n show "length (defaultImportsOf m' (addedImports (addImport (m, s) ctx))) \<le> 1
      \<and> (defaultImportsOf m' (addedImports (addImport (m, s) ctx)) \<noteq> [] \<longrightarrow>
            defaultLocal (registry (addImport (m, s) ctx) m') \<noteq> None)
      \<and> length (namespaceImportsOf m' (addedImports (addImport (m, s) ctx))) \<le> 1
      \<and> (namespaceImportsOf m' (addedImports (addImport (m, s) ctx)) \<noteq> [] \<longrightarrow>
            namespaceLocal (registry (addImport (m, s) ctx) m') \<noteq> None)"
    by simp
qed

lemma consistent_importDefault:
  "consistent ctx \<Longrightarrow> consistent (snd (importDefault gen ctx m))"
  by (simp add: importDefault_eq consistent_addImport split: option.splits)

lemma consistent_importDefaultOrNamespace:
  "consistent ctx \<Longrightarrow> consistent (snd (importDefaultOrNamespace gen ctx m ex))"
  by (simp add: importDefaultOrNamespace_eq consistent_addImport split: option.splits)

lemma consistent_visitWithoutNamedExports:
  "consistent ctx \<Longrightarrow> consistent (snd (visitWithoutNamedExports gen ctx m inStatement))"
  by (simp add: visitWithoutNamedExports_def split_def Let_def consistent_importDefault
        consistent_addImport)

lemma consistent_visitAccess:
  assumes "consistent ctx"
  shows "consistent (snd (visitAccess gen ctx m ex inStatement rv))"
proof (cases "rv \<in> namedExports ex")
  case False
  with consistent_importDefaultOrNamespace [OF assms, of gen m ex] show ?thesis
    by (simp add: visitAccess_def split_def Let_def)
next
  case True
  let ?binding =
    "if hasLocalForNamedImportPropertyNameFromModule ctx rv m
     then (the (getLocalForNamedImportPropertyNameFromModule ctx rv m), ctx)
     else if \<not> hasDefaultExport ex \<and> hasLocalForNamespaceImportFromModule ctx m
     then (the (getLocalForNamespaceImportFromModule ctx m), ctx)
     else
       (let (n, ctx1) = (if isIdentifierFree ctx rv then (rv, ctx)
                         else getFreeIdentifier ctx rv)
        in (n, addImport
                 (m, Named [if rv = n then ImportSpecifier None rv
                            else ImportSpecifier (Some rv) n]) ctx1))"
  have "consistent (snd ?binding)"
    using assms by (simp add: getFreeIdentifier_eq consistent_addImport)
  moreover have "snd (visitAccess gen ctx m ex inStatement rv) = snd ?binding"
    using True
    by (simp add: visitAccess_def split_def Let_def if_distrib [of snd]
          split del: if_split cong: if_cong)
  ultimately show ?thesis by simp
qed

lemma consistent_visitObjectBindingPattern:
  "consistent ctx \<Longrightarrow> consistent (snd (visitObjectBindingPattern gen ctx m ex es))"
  by (simp add: visitObjectBindingPattern_def split_def Let_def
        consistent_importDefaultOrNamespace consistent_addImport)

lemma consistent_visitByDeclaration:
  assumes "consistent ctx" and "visitByDeclaration gen ctx m ex node = Inr (r, ctx')"
  shows "consistent ctx'"
proof (cases "variableDeclarationParent node")
  case None
  with assms consistent_importDefaultOrNamespace [OF assms(1), of gen m ex] show ?thesis
    by (auto simp add: visitByDeclaration_def split_def Let_def split: if_splits)
next
  case (Some name)
  show ?thesis
  proof (cases name)
    case (Identifier x)
    with Some assms consistent_importDefaultOrNamespace [OF assms(1), of gen m ex] show ?thesis
      by (auto simp add: visitByDeclaration_def split_def Let_def)
  next
    case (ObjectBindingPattern es)
    with Some assms consistent_visitObjectBindingPattern [OF assms(1), of gen m ex es]
    show ?thesis
      by (auto simp add: visitByDeclaration_def)
  next
    case ArrayBindingPattern
    with Some assms consistent_importDefaultOrNamespace [OF assms(1), of gen m ex] show ?thesis
      by (auto simp add: visitByDeclaration_def split_def Let_def split: if_splits)
  qed
qed

lemma consistent_visitCallExpression:
  assumes "consistent ctx" and "visitCallExpression gen ctx node = Inr (r, ctx')"
  shows "consistent ctx'"
proof (cases "onlyExports ctx \<or> \<not> requireMatch node")
  case True
  with assms show ?thesis by (auto simp add: visitCallExpression_def split: if_splits)
next
  case False
  show ?thesis
  proof (cases "moduleSpecifier node")
    case None
    with False assms show ?thesis by (auto simp add: visitCallExpression_def)
  next
    case (Some m)
    show ?thesis
    proof (cases "moduleExports node = None
                 \<or> namedExports (the (moduleExports node)) = {}
                 \<or> (expressionStatementParent node
                     \<and> \<not> hasDefaultExport (the (moduleExports node)))")
      case True
      with False Some assms(2)
      have "visitWithoutNamedExports gen ctx m (expressionStatementParent node) = (r, ctx')"
        by (auto simp add: visitCallExpression_def Let_def split: if_splits)
      with consistent_visitWithoutNamedExports [OF assms(1), of gen m "expressionStatementParent node"]
      show ?thesis by simp
    next
      case branch: False
      show ?thesis
      proof (cases "Option.bind (elementOrPropertyAccessExpressionParent node) rightValue")
        case None
        with False Some branch assms(2)
        have "visitByDeclaration gen ctx m (the (moduleExports node)) node = Inr (r, ctx')"
          by (auto simp add: visitCallExpression_def Let_def split: if_splits)
        with assms(1) show ?thesis by (rule consistent_visitByDeclaration)
      next
        case (Some rv)
        with False \<open>moduleSpecifier node = Some m\<close> branch assms(2)
        have "visitAccess gen ctx m (the (moduleExports node)) (expressionStatementParent node) rv
                = (r, ctx')"
          by (auto simp add: visitCallExpression_def Let_def split: if_splits)
        with consistent_visitAccess [OF assms(1), of gen m "the (moduleExports node)"
               "expressionStatementParent node" rv]
        show ?thesis by simp
      qed
    qed
  qed
qed

lemma consistent_visitAll:
  "consistent ctx \<Longrightarrow> consistent (snd (snd (visitAll gen ctx nodes)))"
proof (induction nodes arbitrary: ctx)
  case Nil
  then show ?case by simp
next
  case (Cons node nodes)
  show ?case
  proof (cases "visitCallExpression gen ctx node")
    case (Inl e)
    with Cons.prems show ?thesis by simp
  next
    case (Inr p)
    obtain r ctx1 where p: "p = (r, ctx1)" by (cases p)
    with Inr Cons.prems have "consistent ctx1"
      by (simp add: consistent_visitCallExpression)
    from Cons.IH [OF this] Inr p show ?thesis
      by (simp add: split_def)
  qed
qed

section \<open>Claims on one pass over a file\<close>

text \<open>
  C3: for every sequence of call sites visited in one pass on a fresh context, whether
  the pass ends or is aborted by an error, the plan holds at most one default-binding
  import and at most one namespace-binding import for any module specifier. Every
  branch that adds such an import does so only after the registry has shown no local of
  that kind for the specifier.
\<close>

theorem one_default_and_one_namespace_import:
  "length (defaultImportsOf m
      (addedImports (snd (snd (visitAll gen (initialContext oe dbg used) nodes))))) \<le> 1
   \<and> length (namespaceImportsOf m
      (addedImports (snd (snd (visitAll gen (initialContext oe dbg used) nodes))))) \<le> 1"
proof -
  have "consistent (snd (snd (visitAll gen (initialContext oe dbg used) nodes)))"
    by (rule consistent_visitAll) (rule consistent_initialContext)
  then show ?thesis by (simp add: consistent_def)
qed

theorem one_default_and_one_namespace_import_witness:
  "addedImports (snd (snd (visitAll id (initialContext False False [])
      [(requireSite (Some ''m'') (Some \<lparr>hasDefaultExport = True, namedExports = {''a''}\<rparr>))
         \<lparr>variableDeclarationParent := Some (Identifier ''x'')\<rparr>,
       (requireSite (Some ''m'') (Some \<lparr>hasDefaultExport = True, namedExports = {''a''}\<rparr>))
         \<lparr>callExpressionParent := True\<rparr>,
       (requireSite (Some ''m'') None)
         \<lparr>variableDeclarationParent := Some (Identifier ''y'')\<rparr>])))
     = [(''m'', Default ''m'')]
   \<and> length (defaultImportsOf ''m''
        (addedImports (snd (snd (visitAll id (initialContext False False [])
          [(requireSite (Some ''m'') (Some \<lparr>hasDefaultExport = True, namedExports = {''a''}\<rparr>))
             \<lparr>variableDeclarationParent := Some (Identifier ''x'')\<rparr>,
           (requireSite (Some ''m'') (Some \<lparr>hasDefaultExport = True, namedExports = {''a''}\<rparr>))
             \<lparr>callExpressionParent := True\<rparr>,
           (requireSite (Some ''m'') None)
             \<lparr>variableDeclarationParent := Some (Identifier ''y'')\<rparr>]))))) \<le> 1"
  using one_default_and_one_namespace_import
    [of "''m''" id False False "[]"
        "[(requireSite (Some ''m'') (Some \<lparr>hasDefaultExport = True, namedExports = {''a''}\<rparr>))
            \<lparr>variableDeclarationParent := Some (Identifier ''x'')\<rparr>,
          (requireSite (Some ''m'') (Some \<lparr>hasDefaultExport = True, namedExports = {''a''}\<rparr>))
            \<lparr>callExpressionParent := True\<rparr>,
          (requireSite (Some ''m'') None)
            \<lparr>variableDeclarationParent := Some (Identifier ''y'')\<rparr>]"]
  by (simp add: requireSite_def visitCallExpression_def visitByDeclaration_def
        visitWithoutNamedExports_def importDefault_eq importDefaultOrNamespace_eq
        entry_defs Let_def)

text \<open>
  C5, as stated: any two bare-statement calls of one module yield one bare import. For
  a module known to have both a default export and named exports the guard of line 75
  does not hold, no other branch matches a bare statement, and the source reaches its
  last lines: no import is added.
\<close>

theorem bare_statement_counterexample:
  "visitAll id (initialContext False False [])
     [(requireSite (Some ''m'') (Some \<lparr>hasDefaultExport = True, namedExports = {''a''}\<rparr>))
        \<lparr>expressionStatementParent := True\<rparr>,
      (requireSite (Some ''m'') (Some \<lparr>hasDefaultExport = True, namedExports = {''a''}\<rparr>))
        \<lparr>expressionStatementParent := True\<rparr>]
   = (None, [Unchanged, Unchanged], initialContext False False [])"
  by (simp add: requireSite_def visitCallExpression_def visitByDeclaration_def)

text \<open>
  C5, amended: for two call sites in expression statements that require the same module
  specifier, visited one after the other, where the module's exports are unknown, or
  hold no named export, or hold no default export, and no bare import of the specifier
  is recorded yet: the first call adds the bare import and is removed, the second adds
  nothing and is removed, so the plan grows by exactly one Bare entry.
\<close>

theorem bare_statement_dedup:
  assumes "\<not> onlyExports ctx"
    and "requireMatch first" and "requireMatch second"
    and "moduleSpecifier first = Some m" and "moduleSpecifier second = Some m"
    and "expressionStatementParent first" and "expressionStatementParent second"
    and "moduleExports first = exports" and "moduleExports second = exports"
    and "exports = None \<or> namedExports (the exports) = {} \<or> \<not> hasDefaultExport (the exports)"
    and "\<not> bareImported (registry ctx m)"
  shows "visitCallExpression gen ctx first = Inr (Remove, addImport (m, Bare) ctx)
       \<and> visitCallExpression gen (addImport (m, Bare) ctx) second
           = Inr (Remove, addImport (m, Bare) ctx)
       \<and> visitAll gen ctx [first, second] = (None, [Remove, Remove], addImport (m, Bare) ctx)
       \<and> addedImports (addImport (m, Bare) ctx) = addedImports ctx @ [(m, Bare)]"
proof -
  have one: "visitCallExpression gen ctx first = Inr (Remove, addImport (m, Bare) ctx)"
    using assms
    by (auto simp add: visitCallExpression_def visitWithoutNamedExports_def
          isModuleSpecifierImportedWithoutLocals_def)
  have "bareImported (registry (addImport (m, Bare) ctx) m)"
    by (simp add: addBare_def)
  then have two: "visitCallExpression gen (addImport (m, Bare) ctx) second
           = Inr (Remove, addImport (m, Bare) ctx)"
    using assms
    by (auto simp add: visitCallExpression_def visitWithoutNamedExports_def
          isModuleSpecifierImportedWithoutLocals_def simp del: addImport_fields(5))
  from one two show ?thesis by simp
qed

theorem bare_statement_dedup_witness:
  "visitAll id (initialContext False True [])
     [(requireSite (Some ''m'') None)\<lparr>expressionStatementParent := True\<rparr>,
      (requireSite (Some ''m'') None)\<lparr>expressionStatementParent := True\<rparr>]
   = (None, [Remove, Remove], addImport (''m'', Bare) (initialContext False True []))
   \<and> addedImports (addImport (''m'', Bare) (initialContext False True [])) = [(''m'', Bare)]"
  using bare_statement_dedup
    [of "initialContext False True []"
        "(requireSite (Some ''m'') None)\<lparr>expressionStatementParent := True\<rparr>"
        "(requireSite (Some ''m'') None)\<lparr>expressionStatementParent := True\<rparr>"
        "''m''" None id]
  by (simp add: requireSite_def)

section \<open>Generated identifiers are free\<close>



section \<open>Claims on object binding patterns\<close>




text \<open>
  C1: a destructured binding with an element whose exported name is not a named export
  must fall back to a whole-module import. For the renaming form the source never looks
  the property name up in \<open>namedExports\<close> (lines 311 to 319): for
  \<open>const {foo: bar} = require("m")\<close>, where \<open>m\<close> exports only \<open>a\<close> and a default, it
  adds the named import of \<open>foo\<close> and replaces the call by \<open>{foo}\<close>.
\<close>

theorem renamed_element_not_checked:
  "outcome (visitCallExpression id (initialContext False False [])
      ((requireSite (Some ''m'') (Some \<lparr>hasDefaultExport = True, namedExports = {''a''}\<rparr>))
         \<lparr>variableDeclarationParent :=
            Some (ObjectBindingPattern
              [BindingElement (Some (PropertyIdentifier ''foo'')) (Identifier ''bar'')])\<rparr>))
     = Inr (ReplaceWithObjectLiteral [ShorthandPropertyAssignment ''foo''],
            [(''m'', Named [ImportSpecifier None ''foo''])])"
  by (simp add: visitCallExpression_def requireSite_def outcome_def visitByDeclaration_def
        visitObjectBindingPattern_def visitBindingElements_def isIdentifierFree_def)

section \<open>Claims on reused named imports\<close>



















end
